theory Spec2Isabelle
  imports Main
begin

section \<open>Data model\<close>

text \<open>
  The tables read and written by \<^verbatim>\<open>models/Booking.js\<close> (classes \<^verbatim>\<open>Booking\<close> and
  \<^verbatim>\<open>Facility\<close>), with the columns those queries mention. A table is the list of its
  rows; \<^verbatim>\<open>INSERT\<close> appends. Identifiers (UUIDs) are natural numbers. An instant
  (\<^verbatim>\<open>TIMESTAMP WITH TIME ZONE\<close>, a JavaScript \<^verbatim>\<open>Date\<close>, a \<^verbatim>\<open>moment\<close>) is its number of
  milliseconds since the epoch, in UTC. A calendar date (\<^verbatim>\<open>DATE\<close>, a \<^verbatim>\<open>YYYY-MM-DD\<close> string)
  is its number of days since the epoch. The server and the database session share one
  time zone with a fixed offset \<open>tz\<close> from UTC, in milliseconds.

  The model is the application code over plain tables. What the schema itself may
  enforce (keys, \<^verbatim>\<open>CHECK\<close> constraints, the trigger that the migration script installs)
  is not part of it; the status \<^verbatim>\<open>pending\<close> is kept because the queries name it.
\<close>

type_synonym uuid = nat

datatype booking_status = Confirmed | Pending | Cancelled | Completed | NoShow

datatype facility_status = Available | Maintenance | Closed

datatype membership_status = Active | Expired | MCancelled | MPending

datatype role = Member | Staff | Admin | Guest

record user =
  u_id :: uuid
  u_role :: role

record booking =
  b_id :: uuid
  b_user_id :: uuid
  b_facility_id :: uuid
  b_start_time :: int
  b_end_time :: int
  b_status :: booking_status
  b_notes :: "string option"

record facility =
  f_id :: uuid
  f_type :: string
  f_operating_hours_start :: string
  f_operating_hours_end :: string
  f_booking_duration_minutes :: int
  f_booking_buffer_minutes :: int
  f_status :: facility_status

record membership_type =
  mt_id :: uuid
  mt_max_bookings_per_day :: int
  mt_max_booking_days_ahead :: int
  mt_facilities_access :: "string list"

record membership =
  m_user_id :: uuid
  m_membership_type_id :: uuid
  m_end_date :: int
  m_status :: membership_status
  m_created_at :: int

record db =
  users_tbl :: "user list"
  bookings_tbl :: "booking list"
  facilities_tbl :: "facility list"
  memberships_tbl :: "membership list"
  membership_types_tbl :: "membership_type list"

text \<open>
  The messages thrown by \<^verbatim>\<open>Booking.create\<close> and the error responses of the controllers.
\<close>

datatype error =
    AlreadyBooked
  | FacilityNotAvailable
  | DurationMismatch int
  | OutsideOperatingHours
  | MembershipRequired
  | EntitlementDenied
  | DailyLimitExceeded int
  | AdvanceWindowExceeded int
  | ValidationError
  | AccessDenied
  | BookingNotFound
  | NotFoundOrNotCancellable
  | DateRequired
  | FacilityNotFound
  | InternalServerError

section \<open>Time and strings\<close>

text \<open>\<^verbatim>\<open>DATE(ts)\<close> and \<^verbatim>\<open>moment(ts).format('YYYY-MM-DD')\<close>: the local calendar day.\<close>

definition local_day :: "int \<Rightarrow> int \<Rightarrow> int" where
  "local_day tz t = (t + tz) div 86400000"

text \<open>\<^verbatim>\<open>moment(t).startOf('day')\<close>: the instant of local midnight.\<close>

definition startOf_day :: "int \<Rightarrow> int \<Rightarrow> int" where
  "startOf_day tz t = local_day tz t * 86400000 - tz"

text \<open>
  \<^verbatim>\<open>moment(a).diff(b, unit)\<close> divides the difference in milliseconds by the unit and
  rounds towards zero (\<^verbatim>\<open>absFloor\<close>).
\<close>

definition absFloor_div :: "int \<Rightarrow> int \<Rightarrow> int" where
  "absFloor_div x u = (if x < 0 then - ((- x) div u) else x div u)"

definition diff_minutes :: "int \<Rightarrow> int \<Rightarrow> int" where
  "diff_minutes a b = absFloor_div (a - b) 60000"

definition diff_days :: "int \<Rightarrow> int \<Rightarrow> int" where
  "diff_days a b = absFloor_div (a - b) 86400000"

definition digit_char :: "nat \<Rightarrow> char" where
  "digit_char n = ''0123456789'' ! n"

definition pad2 :: "nat \<Rightarrow> string" where
  "pad2 n = [digit_char (n div 10), digit_char (n mod 10)]"

text \<open>\<^verbatim>\<open>moment(t).format('HH:mm:ss')\<close>: the local time of day, zero padded.\<close>

definition format_HHmmss :: "int \<Rightarrow> int \<Rightarrow> string" where
  "format_HHmmss tz t =
     (let s = nat (((t + tz) div 1000) mod 86400)
      in pad2 (s div 3600) @ '':'' @ pad2 ((s div 60) mod 60) @ '':'' @ pad2 (s mod 60))"

text \<open>JavaScript's \<^verbatim>\<open><\<close> on two strings: lexicographic on the code units.\<close>

fun js_string_lt :: "string \<Rightarrow> string \<Rightarrow> bool" where
  "js_string_lt [] [] = False"
| "js_string_lt [] (y # ys) = True"
| "js_string_lt (x # xs) [] = False"
| "js_string_lt (x # xs) (y # ys) =
     (if (of_char x :: nat) < of_char y then True
      else if (of_char y :: nat) < of_char x then False
      else js_string_lt xs ys)"

section \<open>Booking.create\<close>

text \<open>
  The disjunction in the \<^verbatim>\<open>WHERE\<close> clause of \<^verbatim>\<open>availabilityQuery\<close>: an existing row
  \<open>[start_time, end_time]\<close> against the request \<open>[$2, $3]\<close>.
\<close>

definition conflict_test :: "int \<Rightarrow> int \<Rightarrow> int \<Rightarrow> int \<Rightarrow> bool" where
  "conflict_test start_time end_time p2 p3 =
     ((start_time \<le> p2 \<and> end_time > p2) \<or>
      (start_time < p3 \<and> end_time \<ge> p3) \<or>
      (start_time \<ge> p2 \<and> end_time \<le> p3))"

definition availabilityQuery :: "db \<Rightarrow> uuid \<Rightarrow> int \<Rightarrow> int \<Rightarrow> booking list" where
  "availabilityQuery d facilityId startTime endTime =
     filter (\<lambda>b. b_facility_id b = facilityId
                \<and> b_status b \<in> {Confirmed, Pending}
                \<and> conflict_test (b_start_time b) (b_end_time b) startTime endTime)
            (bookings_tbl d)"

definition facilityQuery :: "db \<Rightarrow> uuid \<Rightarrow> facility list" where
  "facilityQuery d facilityId =
     filter (\<lambda>f. f_id f = facilityId \<and> f_status f = Available) (facilities_tbl d)"

text \<open>
  \<^verbatim>\<open>membershipQuery\<close>: the join of memberships with their types, the user's active
  memberships that end today or later, newest first, at most one row. The sort is
  stable, so rows created at the same instant keep their table order.
\<close>

definition membershipQuery :: "int \<Rightarrow> int \<Rightarrow> db \<Rightarrow> uuid \<Rightarrow> (membership \<times> membership_type) list" where
  "membershipQuery tz now d userId =
     take 1 (sort_key (\<lambda>(m, mt). - m_created_at m)
       [(m, mt). m \<leftarrow> memberships_tbl d, mt \<leftarrow> membership_types_tbl d,
                 m_membership_type_id m = mt_id mt,
                 m_user_id m = userId \<and> m_status m = Active \<and> m_end_date m \<ge> local_day tz now])"

definition facilityTypeQuery :: "db \<Rightarrow> uuid \<Rightarrow> string list" where
  "facilityTypeQuery d facilityId =
     map f_type (filter (\<lambda>f. f_id f = facilityId) (facilities_tbl d))"

definition dailyBookingsQuery :: "int \<Rightarrow> db \<Rightarrow> uuid \<Rightarrow> int \<Rightarrow> int" where
  "dailyBookingsQuery tz d userId bookingDate =
     int (length (filter (\<lambda>b. b_user_id b = userId
                             \<and> local_day tz (b_start_time b) = bookingDate
                             \<and> b_status b \<in> {Confirmed, Pending})
                         (bookings_tbl d)))"

text \<open>
  \<^verbatim>\<open>Booking.create\<close>, inside \<^verbatim>\<open>withTransaction\<close>: a thrown error rolls back, so an error
  carries no new state. The fields of \<^verbatim>\<open>bookingData\<close> are the last five arguments.
  \<open>now\<close> is the clock when the request runs and \<open>new_id\<close> the identifier
  \<^verbatim>\<open>uuid_generate_v4()\<close> gives the inserted row.
\<close>

definition Booking_create :: "int \<Rightarrow> int \<Rightarrow> uuid \<Rightarrow> db \<Rightarrow> uuid \<Rightarrow> uuid \<Rightarrow> int \<Rightarrow> int \<Rightarrow> string option
    \<Rightarrow> error + (booking \<times> db)" where
  "Booking_create tz now new_id d userId facilityId startTime endTime notes =
     (if availabilityQuery d facilityId startTime endTime \<noteq> []
      then Inl AlreadyBooked
      else (case facilityQuery d facilityId of
        [] \<Rightarrow> Inl FacilityNotAvailable
      | facility # _ \<Rightarrow>
          if diff_minutes endTime startTime \<noteq> f_booking_duration_minutes facility
          then Inl (DurationMismatch (f_booking_duration_minutes facility))
          else if js_string_lt (format_HHmmss tz startTime) (f_operating_hours_start facility)
                \<or> js_string_lt (f_operating_hours_end facility) (format_HHmmss tz startTime)
          then Inl OutsideOperatingHours
          else (case membershipQuery tz now d userId of
            [] \<Rightarrow> Inl MembershipRequired
          | (m, mt) # _ \<Rightarrow>
              (case facilityTypeQuery d facilityId of
                [] \<Rightarrow> Inl InternalServerError
              | facilityType # _ \<Rightarrow>
                  if facilityType \<notin> set (mt_facilities_access mt)
                  then Inl EntitlementDenied
                  else if dailyBookingsQuery tz d userId (local_day tz startTime)
                          \<ge> mt_max_bookings_per_day mt
                  then Inl (DailyLimitExceeded (mt_max_bookings_per_day mt))
                  else if diff_days startTime (startOf_day tz now)
                          > mt_max_booking_days_ahead mt
                  then Inl (AdvanceWindowExceeded (mt_max_booking_days_ahead mt))
                  else
                    (let row = \<lparr>b_id = new_id,
                                b_user_id = userId,
                                b_facility_id = facilityId,
                                b_start_time = startTime,
                                b_end_time = endTime,
                                b_status = Confirmed,
                                b_notes = notes\<rparr>
                     in Inr (row, d\<lparr>bookings_tbl := bookings_tbl d @ [row]\<rparr>))))))"

section \<open>Booking.cancel, Booking.updateStatus, Booking.findById\<close>

text \<open>
  \<^verbatim>\<open>UPDATE bookings SET ... WHERE ... RETURNING *\<close>: the table after the update, and the
  updated rows.
\<close>

definition sql_update :: "(booking \<Rightarrow> bool) \<Rightarrow> (booking \<Rightarrow> booking) \<Rightarrow> booking list
    \<Rightarrow> booking list \<times> booking list" where
  "sql_update wh st rows = (map (\<lambda>b. if wh b then st b else b) rows, map st (filter wh rows))"

text \<open>\<^verbatim>\<open>result.rows[0]\<close>: \<^verbatim>\<open>undefined\<close> on an empty result.\<close>

definition rows0 :: "'a list \<Rightarrow> 'a option" where
  "rows0 rows = (case rows of [] \<Rightarrow> None | r # _ \<Rightarrow> Some r)"

definition Booking_cancel :: "db \<Rightarrow> uuid \<Rightarrow> uuid \<Rightarrow> booking option \<times> db" where
  "Booking_cancel d ident userId =
     (let (table, returning) =
            sql_update (\<lambda>b. b_id b = ident \<and> b_user_id b = userId \<and> b_status b \<in> {Confirmed, Pending})
                       (\<lambda>b. b\<lparr>b_status := Cancelled\<rparr>) (bookings_tbl d)
      in (rows0 returning, d\<lparr>bookings_tbl := table\<rparr>))"



section \<open>BookingController\<close>

text \<open>
  A response is the error of a 4xx/5xx reply or the body of a 2xx one, paired with the
  database after the request. \<^verbatim>\<open>bookingSchema\<close>: \<^verbatim>\<open>startTime\<close> not before now,
  \<^verbatim>\<open>endTime\<close> not before \<^verbatim>\<open>startTime\<close>, \<^verbatim>\<open>notes\<close> when present not empty and at most 500
  characters.
\<close>

definition notes_valid :: "string option \<Rightarrow> bool" where
  "notes_valid n = (case n of None \<Rightarrow> True | Some s \<Rightarrow> s \<noteq> [] \<and> length s \<le> 500)"

definition bookingSchema_valid :: "int \<Rightarrow> int \<Rightarrow> int \<Rightarrow> string option \<Rightarrow> bool" where
  "bookingSchema_valid now startTime endTime notes =
     (startTime \<ge> now \<and> endTime \<ge> startTime \<and> notes_valid notes)"

definition createBooking :: "int \<Rightarrow> int \<Rightarrow> uuid \<Rightarrow> user \<Rightarrow> uuid \<Rightarrow> int \<Rightarrow> int \<Rightarrow> string option
    \<Rightarrow> db \<Rightarrow> (error + booking) \<times> db" where
  "createBooking tz now new_id req_user facilityId startTime endTime notes d =
     (if \<not> bookingSchema_valid now startTime endTime notes then (Inl ValidationError, d)
      else (case Booking_create tz now new_id d (u_id req_user) facilityId startTime endTime notes of
              Inl e \<Rightarrow> (Inl e, d)
            | Inr (booking, d') \<Rightarrow> (Inr booking, d')))"

definition cancelBooking :: "user \<Rightarrow> uuid \<Rightarrow> db \<Rightarrow> (error + booking) \<times> db" where
  "cancelBooking req_user ident d =
     (case Booking_cancel d ident (u_id req_user) of
        (None, d') \<Rightarrow> (Inl NotFoundOrNotCancellable, d')
      | (Some booking, d') \<Rightarrow> (Inr booking, d'))"


section \<open>Facility.getAvailableSlots\<close>

text \<open>
  The values the slot test handles: a \<^verbatim>\<open>Date\<close> with its time value, and \<^verbatim>\<open>undefined\<close>,
  which reading a property an object does not have gives. An object is the list of its
  properties.
\<close>

datatype js_value = Undefined | Date int

type_synonym js_object = "(string \<times> js_value) list"

definition js_get :: "js_object \<Rightarrow> string \<Rightarrow> js_value" where
  "js_get obj k = (case map_of obj k of None \<Rightarrow> Undefined | Some v \<Rightarrow> v)"

text \<open>\<^verbatim>\<open>ToNumber\<close>: \<^verbatim>\<open>undefined\<close> is \<^verbatim>\<open>NaN\<close> (here \<open>None\<close>).\<close>

fun js_ToNumber :: "js_value \<Rightarrow> int option" where
  "js_ToNumber Undefined = None"
| "js_ToNumber (Date t) = Some t"

text \<open>\<^verbatim>\<open>a < b\<close> on two such values: false as soon as one side is \<^verbatim>\<open>NaN\<close>.\<close>

definition js_lt :: "js_value \<Rightarrow> js_value \<Rightarrow> bool" where
  "js_lt a b = (case (js_ToNumber a, js_ToNumber b) of
                  (Some x, Some y) \<Rightarrow> x < y
                | _ \<Rightarrow> False)"

definition js_gt :: "js_value \<Rightarrow> js_value \<Rightarrow> bool" where
  "js_gt a b = js_lt b a"

text \<open>\<^verbatim>\<open>s.split(':')\<close>.\<close>

fun split_colon :: "string \<Rightarrow> string list" where
  "split_colon [] = [[]]"
| "split_colon (c # cs) =
     (if c = CHR '':'' then [] # split_colon cs
      else (case split_colon cs of
              [] \<Rightarrow> [[c]]
            | p # ps \<Rightarrow> (c # p) # ps))"

text \<open>
  \<^verbatim>\<open>Number(s)\<close> on the text of a \<^verbatim>\<open>TIME\<close> field: a run of decimal digits is its value,
  the empty string is 0, and any other string counts as \<^verbatim>\<open>NaN\<close> (\<open>None\<close>).
\<close>

definition digit_val :: "char \<Rightarrow> int option" where
  "digit_val c = (if (48::nat) \<le> of_char c \<and> (of_char c :: nat) \<le> 57
                  then Some (int (of_char c) - 48) else None)"

fun digits_val :: "int \<Rightarrow> string \<Rightarrow> int option" where
  "digits_val acc [] = Some acc"
| "digits_val acc (c # cs) =
     (case digit_val c of None \<Rightarrow> None | Some v \<Rightarrow> digits_val (acc * 10 + v) cs)"

definition js_Number :: "string \<Rightarrow> int option" where
  "js_Number s = digits_val 0 s"

text \<open>
  \<^verbatim>\<open>const [hour, minute] = hours.split(':').map(Number)\<close>: \<open>None\<close> when either is
  \<^verbatim>\<open>NaN\<close> or \<^verbatim>\<open>undefined\<close>, which makes \<^verbatim>\<open>setHours\<close> produce an invalid date.
\<close>

definition parse_hours :: "string \<Rightarrow> (int \<times> int) option" where
  "parse_hours s = (case map js_Number (split_colon s) of
                      Some h # Some m # _ \<Rightarrow> Some (h, m)
                    | _ \<Rightarrow> None)"

text \<open>
  \<^verbatim>\<open>new Date(date)\<close> for a \<^verbatim>\<open>YYYY-MM-DD\<close> string is midnight UTC of that day;
  \<^verbatim>\<open>setHours(h, m, 0, 0)\<close> then replaces the local time of day of that instant.
\<close>

definition new_Date :: "int \<Rightarrow> int" where
  "new_Date date = date * 86400000"

definition setHours :: "int \<Rightarrow> int \<Rightarrow> int \<Rightarrow> int \<Rightarrow> int" where
  "setHours tz t h m = local_day tz t * 86400000 + h * 3600000 + m * 60000 - tz"

record slot_row =
  r_facility :: facility
  r_start_time :: "int option"
  r_end_time :: "int option"

text \<open>
  The query of \<^verbatim>\<open>getAvailableSlots\<close>: each facility with the id, left-joined with its
  confirmed or pending bookings that start on the date; a facility without such a
  booking gives one row with \<^verbatim>\<open>NULL\<close> times.
\<close>

definition slotsQuery :: "int \<Rightarrow> db \<Rightarrow> uuid \<Rightarrow> int \<Rightarrow> slot_row list" where
  "slotsQuery tz d facilityId date =
     concat (map (\<lambda>f.
         (case filter (\<lambda>b. f_id f = b_facility_id b
                           \<and> local_day tz (b_start_time b) = date
                           \<and> b_status b \<in> {Confirmed, Pending}) (bookings_tbl d) of
            [] \<Rightarrow> [\<lparr>r_facility = f, r_start_time = None, r_end_time = None\<rparr>]
          | bs \<Rightarrow> map (\<lambda>b. \<lparr>r_facility = f, r_start_time = Some (b_start_time b),
                             r_end_time = Some (b_end_time b)\<rparr>) bs))
       (filter (\<lambda>f. f_id f = facilityId) (facilities_tbl d)))"

text \<open>
  \<^verbatim>\<open>new Date(null)\<close> is the epoch; the rows that reach it have passed the filter on
  \<^verbatim>\<open>start_time\<close>.
\<close>

definition row_booking :: "slot_row \<Rightarrow> js_object" where
  "row_booking row =
     [(''startTime'', Date (case r_start_time row of None \<Rightarrow> 0 | Some t \<Rightarrow> t)),
      (''endTime'', Date (case r_end_time row of None \<Rightarrow> 0 | Some t \<Rightarrow> t))]"

record slot =
  slot_startTime :: int
  slot_endTime :: int
  available :: bool

text \<open>
  The test inside \<^verbatim>\<open>bookings.some\<close>, on the properties it names: \<^verbatim>\<open>end_time\<close> and
  \<^verbatim>\<open>start_time\<close>.
\<close>

definition isConflicting :: "js_object list \<Rightarrow> int \<Rightarrow> int \<Rightarrow> bool" where
  "isConflicting bookings slotStart slotEnd =
     list_ex (\<lambda>booking. js_lt (Date slotStart) (js_get booking ''end_time'')
                       \<and> js_gt (Date slotEnd) (js_get booking ''start_time'')) bookings"

text \<open>
  The \<^verbatim>\<open>while\<close> loop. It may run forever, so the function is partial: \<open>None\<close> is a
  loop that does not end, \<open>Some\<close> the slots pushed when it ends.
\<close>

partial_function (option) slot_loop :: "js_object list \<Rightarrow> int \<Rightarrow> int \<Rightarrow> int \<Rightarrow> slot list \<Rightarrow> int
    \<Rightarrow> slot list option" where
  "slot_loop bookings slotDuration bufferTime dayEnd availableSlots currentTime =
     (if currentTime + slotDuration * 60 * 1000 \<le> dayEnd
      then slot_loop bookings slotDuration bufferTime dayEnd
             (if \<not> isConflicting bookings currentTime (currentTime + slotDuration * 60 * 1000)
              then availableSlots @ [\<lparr>slot_startTime = currentTime,
                                      slot_endTime = currentTime + slotDuration * 60 * 1000,
                                      available = True\<rparr>]
              else availableSlots @ [\<lparr>slot_startTime = currentTime,
                                      slot_endTime = currentTime + slotDuration * 60 * 1000,
                                      available = False\<rparr>])
             (currentTime + slotDuration * 60 * 1000 + bufferTime * 60 * 1000)
      else Some availableSlots)"

record facility_info =
  bookingDurationMinutes :: int
  operatingHoursStart :: string
  operatingHoursEnd :: string

record availability =
  facility :: facility_info
  availableSlots :: "slot list"

text \<open>
  \<^verbatim>\<open>Facility.getAvailableSlots\<close>. The outer \<open>None\<close> is a call that never returns, the
  inner \<open>None\<close> the \<^verbatim>\<open>null\<close> returned when the query has no row. With an invalid
  \<^verbatim>\<open>dayStart\<close> or \<^verbatim>\<open>dayEnd\<close> the loop condition compares with \<^verbatim>\<open>NaN\<close> and the loop body
  never runs.
\<close>

definition Facility_getAvailableSlots :: "int \<Rightarrow> db \<Rightarrow> uuid \<Rightarrow> int \<Rightarrow> availability option option" where
  "Facility_getAvailableSlots tz d facilityId date =
     (case slotsQuery tz d facilityId date of
        [] \<Rightarrow> Some None
      | row # rows \<Rightarrow>
          (let fac = r_facility row;
               bookings = map row_booking (filter (\<lambda>r. r_start_time r \<noteq> None) (row # rows));
               info = \<lparr>bookingDurationMinutes = f_booking_duration_minutes fac,
                       operatingHoursStart = f_operating_hours_start fac,
                       operatingHoursEnd = f_operating_hours_end fac\<rparr>
           in (case (parse_hours (f_operating_hours_start fac),
                     parse_hours (f_operating_hours_end fac)) of
                 (Some (startHour, startMinute), Some (endHour, endMinute)) \<Rightarrow>
                   map_option (\<lambda>s. Some \<lparr>facility = info, availableSlots = s\<rparr>)
                     (slot_loop bookings (f_booking_duration_minutes fac)
                        (f_booking_buffer_minutes fac)
                        (setHours tz (new_Date date) endHour endMinute)
                        []
                        (setHours tz (new_Date date) startHour startMinute))
               | _ \<Rightarrow> Some (Some \<lparr>facility = info, availableSlots = []\<rparr>))))"

section \<open>FacilityController.getAvailableSlots\<close>

text \<open>
  The \<^verbatim>\<open>date\<close> query parameter may be missing. \<open>None\<close> is a request that never gets
  its response.
\<close>

definition getAvailableSlots :: "int \<Rightarrow> db \<Rightarrow> uuid \<Rightarrow> int option \<Rightarrow> (error + availability) option" where
  "getAvailableSlots tz d ident date =
     (case date of
        None \<Rightarrow> Some (Inl DateRequired)
      | Some dt \<Rightarrow>
          (case Facility_getAvailableSlots tz d ident dt of
             None \<Rightarrow> None
           | Some None \<Rightarrow> Some (Inl FacilityNotFound)
           | Some (Some slots) \<Rightarrow> Some (Inr slots)))"

section \<open>The overlap primitive of the specification\<close>


section \<open>Booking state over a sequence of requests\<close>








section \<open>A sample club\<close>

text \<open>
  Two facilities and two membership types in the shape of the seed data, three users,
  and a server on UTC. \<open>at_time day h m\<close> is the instant of \<open>h:m\<close> UTC on a day.
\<close>

definition at_time :: "int \<Rightarrow> int \<Rightarrow> int \<Rightarrow> int" where
  "at_time day h m = day * 86400000 + h * 3600000 + m * 60000"

definition court :: facility where
  "court = \<lparr>f_id = 1, f_type = ''tennis_court'', f_operating_hours_start = ''06:00:00'',
            f_operating_hours_end = ''22:00:00'', f_booking_duration_minutes = 60,
            f_booking_buffer_minutes = 15, f_status = Available\<rparr>"

definition studio :: facility where
  "studio = \<lparr>f_id = 2, f_type = ''gym'', f_operating_hours_start = ''08:00:00'',
             f_operating_hours_end = ''10:00:00'', f_booking_duration_minutes = 60,
             f_booking_buffer_minutes = 0, f_status = Available\<rparr>"

text \<open>A room whose row holds a zero duration and a zero buffer, closed for repairs.\<close>

definition annex :: facility where
  "annex = \<lparr>f_id = 3, f_type = ''gym'', f_operating_hours_start = ''08:00:00'',
            f_operating_hours_end = ''10:00:00'', f_booking_duration_minutes = 0,
            f_booking_buffer_minutes = 0, f_status = Maintenance\<rparr>"

definition sauna :: facility where
  "sauna = \<lparr>f_id = 4, f_type = ''spa'', f_operating_hours_start = ''08:00:00'',
            f_operating_hours_end = ''10:00:00'', f_booking_duration_minutes = 60,
            f_booking_buffer_minutes = 0, f_status = Closed\<rparr>"

text \<open>A lobby whose row holds a zero duration with a buffer of an hour.\<close>

definition lobby :: facility where
  "lobby = \<lparr>f_id = 5, f_type = ''gym'', f_operating_hours_start = ''08:00:00'',
            f_operating_hours_end = ''10:00:00'', f_booking_duration_minutes = 0,
            f_booking_buffer_minutes = 60, f_status = Available\<rparr>"

definition alice :: user where
  "alice = \<lparr>u_id = 10, u_role = Member\<rparr>"

definition bob :: user where
  "bob = \<lparr>u_id = 11, u_role = Member\<rparr>"

definition carol :: user where
  "carol = \<lparr>u_id = 12, u_role = Staff\<rparr>"

definition basic :: membership_type where
  "basic = \<lparr>mt_id = 20, mt_max_bookings_per_day = 3, mt_max_booking_days_ahead = 7,
            mt_facilities_access = [''gym'', ''swimming_pool'']\<rparr>"

definition premium :: membership_type where
  "premium = \<lparr>mt_id = 21, mt_max_bookings_per_day = 5, mt_max_booking_days_ahead = 30,
              mt_facilities_access = [''gym'', ''swimming_pool'', ''tennis_court'']\<rparr>"

definition club :: db where
  "club = \<lparr>users_tbl = [alice, bob, carol],
           bookings_tbl = [],
           facilities_tbl = [court, studio, annex, sauna, lobby],
           memberships_tbl =
             [\<lparr>m_user_id = 10, m_membership_type_id = 20, m_end_date = 20300,
               m_status = Active, m_created_at = 0\<rparr>,
              \<lparr>m_user_id = 11, m_membership_type_id = 21, m_end_date = 20300,
               m_status = Active, m_created_at = 0\<rparr>],
           membership_types_tbl = [basic, premium]\<rparr>"

text \<open>The clock of the sample requests: day 20000 at 07:00.\<close>

definition clock :: int where
  "clock = at_time 20000 7 0"

text \<open>A booking of the studio, 09:00 to 10:00 on a given day.\<close>

definition studio_9_10 :: "uuid \<Rightarrow> uuid \<Rightarrow> int \<Rightarrow> booking_status \<Rightarrow> booking" where
  "studio_9_10 ident uid day st =
     \<lparr>b_id = ident, b_user_id = uid, b_facility_id = 2, b_start_time = at_time day 9 0,
      b_end_time = at_time day 10 0, b_status = st, b_notes = None\<rparr>"

section \<open>Properties\<close>

subsection \<open>Unfolding the model on the sample club\<close>

lemmas sample_defs = club_def court_def studio_def annex_def sauna_def lobby_def alice_def bob_def carol_def
  basic_def premium_def clock_def at_time_def studio_9_10_def

lemmas create_defs = createBooking_def bookingSchema_valid_def notes_valid_def
  Booking_create_def availabilityQuery_def facilityQuery_def conflict_test_def
  diff_minutes_def absFloor_div_def format_HHmmss_def pad2_def digit_char_def
  membershipQuery_def local_day_def facilityTypeQuery_def dailyBookingsQuery_def
  diff_days_def startOf_day_def Let_def

lemmas slots_defs = getAvailableSlots_def Facility_getAvailableSlots_def slotsQuery_def local_day_def
  parse_hours_def js_Number_def digit_val_def setHours_def new_Date_def slot_loop.simps
  isConflicting_def js_lt_def js_gt_def js_get_def row_booking_def Let_def

lemmas cancel_defs = cancelBooking_def Booking_cancel_def sql_update_def rows0_def Let_def

lemma create_alice:
  "createBooking 0 clock 100 alice 2 (at_time 20001 9 0) (at_time 20001 10 0) None club
     = (Inr (studio_9_10 100 10 20001 Confirmed),
        club\<lparr>bookings_tbl := [studio_9_10 100 10 20001 Confirmed]\<rparr>)"
  by (simp add: create_defs sample_defs)




subsection \<open>The conflict test of the query and the overlap primitive\<close>



subsection \<open>Slots after a booking\<close>

text \<open>
  Claim C2, evaluated. Alice books the studio (08:00 to 10:00, slots of 60 minutes, no
  buffer) from 09:00 to 10:00 on day 20001. The slot list for that day then still
  reports both slots, 08:00 to 09:00 and 09:00 to 10:00, as available: the slot test
  reads \<^verbatim>\<open>end_time\<close> and \<^verbatim>\<open>start_time\<close> from objects built with the properties
  \<^verbatim>\<open>startTime\<close> and \<^verbatim>\<open>endTime\<close>, so both comparisons are against \<^verbatim>\<open>undefined\<close>.
\<close>

theorem slots_after_booking:
  "createBooking 0 clock 100 alice 2 (at_time 20001 9 0) (at_time 20001 10 0) None club
     = (Inr (studio_9_10 100 10 20001 Confirmed),
        club\<lparr>bookings_tbl := [studio_9_10 100 10 20001 Confirmed]\<rparr>)
   \<and> getAvailableSlots 0 (club\<lparr>bookings_tbl := [studio_9_10 100 10 20001 Confirmed]\<rparr>) 2 (Some 20001)
     = Some (Inr \<lparr>facility = \<lparr>bookingDurationMinutes = 60, operatingHoursStart = ''08:00:00'',
                                operatingHoursEnd = ''10:00:00''\<rparr>,
                   availableSlots =
                     [\<lparr>slot_startTime = at_time 20001 8 0, slot_endTime = at_time 20001 9 0, available = True\<rparr>,
                      \<lparr>slot_startTime = at_time 20001 9 0, slot_endTime = at_time 20001 10 0, available = True\<rparr>]\<rparr>)"
  by (simp add: create_alice) (simp add: slots_defs sample_defs)

subsection \<open>Operating hours\<close>

text \<open>
  Claim C5, evaluated. The court is open from 06:00 to 22:00 with slots of 60 minutes.
  Bob's request from 21:30 to 22:30 is admitted, although its end, 22:30, is after the
  closing time: only the start of the booking is compared with the operating hours.
\<close>

theorem late_booking_admitted:
  "createBooking 0 clock 100 bob 1 (at_time 20001 21 30) (at_time 20001 22 30) None club
     = (Inr \<lparr>b_id = 100, b_user_id = 11, b_facility_id = 1, b_start_time = at_time 20001 21 30,
              b_end_time = at_time 20001 22 30, b_status = Confirmed, b_notes = None\<rparr>,
        club\<lparr>bookings_tbl := [\<lparr>b_id = 100, b_user_id = 11, b_facility_id = 1, b_start_time = at_time 20001 21 30,
              b_end_time = at_time 20001 22 30, b_status = Confirmed, b_notes = None\<rparr>]\<rparr>)
   \<and> format_HHmmss 0 (at_time 20001 22 30) = ''22:30:00''
   \<and> js_string_lt (f_operating_hours_end court) (format_HHmmss 0 (at_time 20001 22 30))"
  by (simp add: create_defs sample_defs)

subsection \<open>The duration check\<close>




subsection \<open>The advance booking window\<close>

lemma diff_days_on_day:
  assumes "local_day tz startTime = local_day tz now + k" and "0 \<le> k"
  shows "diff_days startTime (startOf_day tz now) = k"
proof -
  define D where "D = local_day tz now"
  have "(startTime + tz) div 86400000 = D + k"
    using assms(1) by (simp add: local_day_def D_def)
  then have lo: "(D + k) * 86400000 \<le> startTime + tz"
    and hi: "startTime + tz < (D + k) * 86400000 + 86400000"
    by presburger+
  have eq: "startTime - (D * 86400000 - tz) = (startTime + tz - (D + k) * 86400000) + k * 86400000"
    by (simp add: algebra_simps)
  have nonneg: "0 \<le> startTime - (D * 86400000 - tz)"
    using lo assms(2) by (simp add: algebra_simps)
  have "(startTime - (D * 86400000 - tz)) div 86400000 = k"
    unfolding eq using lo hi by simp
  with nonneg show ?thesis
    by (simp add: diff_days_def absFloor_div_def startOf_day_def D_def)
qed

text \<open>
  Claim C8. With a membership that allows booking 7 days ahead and every other check
  passed, a request that starts on the seventh local day after today is inserted as a
  confirmed booking, and a request that starts on the eighth day fails with the advance
  booking error. The days ahead are counted from the start of the current local day.
\<close>

theorem advance_window_boundary:
  assumes "bookingSchema_valid now startTime endTime memo"
    and "availabilityQuery d facilityId startTime endTime = []"
    and "facilityQuery d facilityId = f # fs"
    and "diff_minutes endTime startTime = f_booking_duration_minutes f"
    and "\<not> js_string_lt (format_HHmmss tz startTime) (f_operating_hours_start f)"
    and "\<not> js_string_lt (f_operating_hours_end f) (format_HHmmss tz startTime)"
    and "membershipQuery tz now d (u_id u) = (m, mt) # ms"
    and "facilityTypeQuery d facilityId = ft # fts"
    and "ft \<in> set (mt_facilities_access mt)"
    and "dailyBookingsQuery tz d (u_id u) (local_day tz startTime) < mt_max_bookings_per_day mt"
    and "mt_max_booking_days_ahead mt = 7"
  shows "(local_day tz startTime = local_day tz now + 7 \<longrightarrow>
            createBooking tz now new_id u facilityId startTime endTime memo d =
              (let row = \<lparr>b_id = new_id, b_user_id = u_id u, b_facility_id = facilityId,
                          b_start_time = startTime, b_end_time = endTime,
                          b_status = Confirmed, b_notes = memo\<rparr>
               in (Inr row, d\<lparr>bookings_tbl := bookings_tbl d @ [row]\<rparr>)))
       \<and> (local_day tz startTime = local_day tz now + 8 \<longrightarrow>
            createBooking tz now new_id u facilityId startTime endTime memo d =
              (Inl (AdvanceWindowExceeded 7), d))"
proof (intro conjI impI)
  assume "local_day tz startTime = local_day tz now + 7"
  then have "diff_days startTime (startOf_day tz now) = 7"
    by (rule diff_days_on_day) simp
  with assms show "createBooking tz now new_id u facilityId startTime endTime memo d =
              (let row = \<lparr>b_id = new_id, b_user_id = u_id u, b_facility_id = facilityId,
                          b_start_time = startTime, b_end_time = endTime,
                          b_status = Confirmed, b_notes = memo\<rparr>
               in (Inr row, d\<lparr>bookings_tbl := bookings_tbl d @ [row]\<rparr>))"
    by (simp add: createBooking_def Booking_create_def Let_def)
next
  assume "local_day tz startTime = local_day tz now + 8"
  then have "diff_days startTime (startOf_day tz now) = 8"
    by (rule diff_days_on_day) simp
  with assms show "createBooking tz now new_id u facilityId startTime endTime memo d =
              (Inl (AdvanceWindowExceeded 7), d)"
    by (simp add: createBooking_def Booking_create_def Let_def)
qed

theorem advance_window_boundary_witness:
  "createBooking 0 clock 100 alice 2 (at_time 20007 9 0) (at_time 20007 10 0) None club
     = (Inr (studio_9_10 100 10 20007 Confirmed),
        club\<lparr>bookings_tbl := [studio_9_10 100 10 20007 Confirmed]\<rparr>)
   \<and> createBooking 0 clock 100 alice 2 (at_time 20008 9 0) (at_time 20008 10 0) None club
     = (Inl (AdvanceWindowExceeded 7), club)"
proof -
  have q: "facilityQuery club 2 = studio # []"
    by (simp add: facilityQuery_def sample_defs)
  have m: "membershipQuery 0 clock club (u_id alice) =
      (\<lparr>m_user_id = 10, m_membership_type_id = 20, m_end_date = 20300,
        m_status = Active, m_created_at = 0\<rparr>, basic) # []"
    by (simp add: membershipQuery_def local_day_def sample_defs)
  have t: "facilityTypeQuery club 2 = ''gym'' # []"
    by (simp add: facilityTypeQuery_def sample_defs)
  have g: "''gym'' \<in> set (mt_facilities_access basic)"
    by (simp add: basic_def)
  have w: "mt_max_booking_days_ahead basic = 7"
    by (simp add: basic_def)
  have today: "local_day 0 clock = 20000"
    by (simp add: local_day_def sample_defs)
  have seven: "local_day 0 (at_time 20007 9 0) = local_day 0 clock + 7"
    by (simp add: local_day_def sample_defs)
  have eight: "local_day 0 (at_time 20008 9 0) = local_day 0 clock + 8"
    by (simp add: local_day_def sample_defs)
  have a: "createBooking 0 clock 100 alice 2 (at_time 20007 9 0) (at_time 20007 10 0) None club
     = (let row = \<lparr>b_id = 100, b_user_id = u_id alice, b_facility_id = 2,
                          b_start_time = at_time 20007 9 0, b_end_time = at_time 20007 10 0,
                          b_status = Confirmed, b_notes = None\<rparr>
               in (Inr row, club\<lparr>bookings_tbl := bookings_tbl club @ [row]\<rparr>))"
    using seven
      advance_window_boundary [OF _ _ q _ _ _ m t g _ w, where startTime = "at_time 20007 9 0"
        and endTime = "at_time 20007 10 0" and memo = None and new_id = 100]
    by (simp add: bookingSchema_valid_def notes_valid_def availabilityQuery_def diff_minutes_def
          absFloor_div_def format_HHmmss_def pad2_def digit_char_def dailyBookingsQuery_def
          sample_defs)
  have b: "createBooking 0 clock 100 alice 2 (at_time 20008 9 0) (at_time 20008 10 0) None club
     = (Inl (AdvanceWindowExceeded 7), club)"
    using eight
      advance_window_boundary [OF _ _ q _ _ _ m t g _ w, where startTime = "at_time 20008 9 0"
        and endTime = "at_time 20008 10 0" and memo = None and new_id = 100]
    by (simp add: bookingSchema_valid_def notes_valid_def availabilityQuery_def diff_minutes_def
          absFloor_div_def format_HHmmss_def pad2_def digit_char_def dailyBookingsQuery_def
          sample_defs)
  from a b show ?thesis
    by (simp add: Let_def sample_defs)
qed

subsection \<open>Cancelling\<close>

lemma sql_update_none:
  assumes "\<forall>b \<in> set rows. \<not> wh b"
  shows "sql_update wh st rows = (rows, [])"
proof -
  have "map (\<lambda>b. if wh b then st b else b) rows = rows"
    using assms by (induction rows) auto
  moreover have "filter wh rows = []"
    using assms by (induction rows) auto
  ultimately show ?thesis by (simp add: sql_update_def)
qed

lemma sql_update_some:
  assumes "\<exists>b \<in> set rows. wh b"
  shows "\<exists>b \<in> set rows. wh b \<and> rows0 (snd (sql_update wh st rows)) = Some (st b)"
proof -
  from assms have "filter wh rows \<noteq> []"
    by (simp add: filter_empty_conv)
  then obtain x xs where fx: "filter wh rows = x # xs"
    by (cases "filter wh rows") auto
  then have "x \<in> set (filter wh rows)" by simp
  then have "x \<in> set rows" and "wh x" by simp_all
  moreover have "rows0 (snd (sql_update wh st rows)) = Some (st x)"
    by (simp add: sql_update_def rows0_def fx)
  ultimately show ?thesis by blast
qed

lemma Booking_cancel_miss:
  assumes "\<not> (\<exists>b \<in> set (bookings_tbl d).
              b_id b = ident \<and> b_user_id b = uid \<and> b_status b \<in> {Confirmed, Pending})"
  shows "Booking_cancel d ident uid = (None, d)"
proof -
  have "sql_update (\<lambda>b. b_id b = ident \<and> b_user_id b = uid \<and> b_status b \<in> {Confirmed, Pending})
          (\<lambda>b. b\<lparr>b_status := Cancelled\<rparr>) (bookings_tbl d) = (bookings_tbl d, [])"
    using assms by (intro sql_update_none) blast
  then show ?thesis
    by (simp add: Booking_cancel_def rows0_def)
qed

lemma Booking_cancel_hit:
  assumes "\<exists>b \<in> set (bookings_tbl d). b_id b = ident \<and> b_user_id b = uid \<and> b_status b \<in> {Confirmed, Pending}"
  shows "\<exists>x \<in> set (bookings_tbl d). b_id x = ident \<and> b_user_id x = uid \<and>
     Booking_cancel d ident uid =
       (Some (x\<lparr>b_status := Cancelled\<rparr>),
        d\<lparr>bookings_tbl := map (\<lambda>b. if b_id b = ident \<and> b_user_id b = uid \<and> b_status b \<in> {Confirmed, Pending}
                       then b\<lparr>b_status := Cancelled\<rparr> else b) (bookings_tbl d)\<rparr>)"
proof -
  let ?wh = "\<lambda>b. b_id b = ident \<and> b_user_id b = uid \<and> b_status b \<in> {Confirmed, Pending}"
  let ?st = "\<lambda>b. b\<lparr>b_status := Cancelled\<rparr>"
  from assms obtain x where x: "x \<in> set (bookings_tbl d)" "?wh x"
    and r: "rows0 (snd (sql_update ?wh ?st (bookings_tbl d))) = Some (?st x)"
    using sql_update_some [of "bookings_tbl d" ?wh ?st] by blast
  have "fst (sql_update ?wh ?st (bookings_tbl d)) = map (\<lambda>b. if ?wh b then ?st b else b) (bookings_tbl d)"
    by (simp add: sql_update_def)
  with r have "Booking_cancel d ident uid =
       (Some (?st x), d\<lparr>bookings_tbl := map (\<lambda>b. if ?wh b then ?st b else b) (bookings_tbl d)\<rparr>)"
    unfolding Booking_cancel_def Let_def by (simp add: case_prod_unfold)
  with x show ?thesis by blast
qed

lemma sql_update_settles:
  assumes "\<And>b. wh b \<Longrightarrow> \<not> wh (st b)"
  shows "\<forall>b \<in> set (fst (sql_update wh st rows)). \<not> wh b"
proof
  fix b
  assume "b \<in> set (fst (sql_update wh st rows))"
  then have "b \<in> (\<lambda>a. if wh a then st a else a) ` set rows"
    by (simp add: sql_update_def)
  then obtain a where b: "b = (if wh a then st a else a)"
    by (rule imageE)
  show "\<not> wh b"
  proof (cases "wh a")
    case True
    then have "\<not> wh (st a)" by (rule assms)
    with True b show ?thesis by simp
  next
    case False
    with b show ?thesis by simp
  qed
qed

lemma Booking_cancel_again:
  "Booking_cancel (snd (Booking_cancel d ident uid)) ident uid = (None, snd (Booking_cancel d ident uid))"
proof (rule Booking_cancel_miss)
  let ?wh = "\<lambda>b. b_id b = ident \<and> b_user_id b = uid \<and> b_status b \<in> {Confirmed, Pending}"
  let ?st = "\<lambda>b. b\<lparr>b_status := Cancelled\<rparr>"
  have "\<And>b. ?wh b \<Longrightarrow> \<not> ?wh (?st b)" by simp
  then have settled: "\<forall>b \<in> set (fst (sql_update ?wh ?st (bookings_tbl d))). \<not> ?wh b"
    by (rule sql_update_settles)
  have eq: "bookings_tbl (snd (Booking_cancel d ident uid)) = fst (sql_update ?wh ?st (bookings_tbl d))"
    by (simp add: Booking_cancel_def case_prod_unfold Let_def)
  show "\<not> (\<exists>b \<in> set (bookings_tbl (snd (Booking_cancel d ident uid))). ?wh b)"
    unfolding eq using settled by blast
qed

text \<open>
  Claim C9. When the caller owns a confirmed or pending booking with the id, the
  cancel request succeeds, returns a row of that id and owner with status cancelled,
  sets every such row to cancelled, and the same request on the new state returns
  the single not-found-or-not-cancellable outcome. When there is no such row (the id
  is unknown, the row belongs to another user, or it is already cancelled) the
  request returns that outcome and changes nothing.
\<close>

theorem cancelBooking_once:
  "((\<exists>b \<in> set (bookings_tbl d).
        b_id b = ident \<and> b_user_id b = u_id u \<and> b_status b \<in> {Confirmed, Pending}) \<longrightarrow>
      (\<exists>b d'. cancelBooking u ident d = (Inr b, d')
         \<and> b_id b = ident \<and> b_user_id b = u_id u \<and> b_status b = Cancelled
         \<and> bookings_tbl d' =
             map (\<lambda>b. if b_id b = ident \<and> b_user_id b = u_id u \<and> b_status b \<in> {Confirmed, Pending}
                       then b\<lparr>b_status := Cancelled\<rparr> else b) (bookings_tbl d)
         \<and> cancelBooking u ident d' = (Inl NotFoundOrNotCancellable, d')))
   \<and> (\<not> (\<exists>b \<in> set (bookings_tbl d).
          b_id b = ident \<and> b_user_id b = u_id u \<and> b_status b \<in> {Confirmed, Pending}) \<longrightarrow>
        cancelBooking u ident d = (Inl NotFoundOrNotCancellable, d))"
proof (rule conjI; rule impI)
  let ?wh = "\<lambda>b. b_id b = ident \<and> b_user_id b = u_id u \<and> b_status b \<in> {Confirmed, Pending}"
  let ?tbl = "map (\<lambda>b. if ?wh b then b\<lparr>b_status := Cancelled\<rparr> else b) (bookings_tbl d)"
  let ?d' = "d\<lparr>bookings_tbl := ?tbl\<rparr>"
  assume "\<exists>b \<in> set (bookings_tbl d). ?wh b"
  then obtain x where x: "b_id x = ident" "b_user_id x = u_id u"
    and c: "Booking_cancel d ident (u_id u) = (Some (x\<lparr>b_status := Cancelled\<rparr>), ?d')"
    using Booking_cancel_hit [of d ident "u_id u"] by blast
  have first: "cancelBooking u ident d = (Inr (x\<lparr>b_status := Cancelled\<rparr>), ?d')"
    by (simp add: cancelBooking_def c)
  have "Booking_cancel ?d' ident (u_id u) = (None, ?d')"
    using Booking_cancel_again [of d ident "u_id u"] unfolding c snd_conv .
  then have again: "cancelBooking u ident ?d' = (Inl NotFoundOrNotCancellable, ?d')"
    by (simp add: cancelBooking_def)
  have tbl: "bookings_tbl ?d' = ?tbl"
    by simp
  have row: "b_id (x\<lparr>b_status := Cancelled\<rparr>) = ident \<and> b_user_id (x\<lparr>b_status := Cancelled\<rparr>) = u_id u
      \<and> b_status (x\<lparr>b_status := Cancelled\<rparr>) = Cancelled"
    using x by simp
  show "\<exists>b d'. cancelBooking u ident d = (Inr b, d')
         \<and> b_id b = ident \<and> b_user_id b = u_id u \<and> b_status b = Cancelled
         \<and> bookings_tbl d' = ?tbl
         \<and> cancelBooking u ident d' = (Inl NotFoundOrNotCancellable, d')"
    using first row tbl again by blast
next
  assume "\<not> (\<exists>b \<in> set (bookings_tbl d).
          b_id b = ident \<and> b_user_id b = u_id u \<and> b_status b \<in> {Confirmed, Pending})"
  then have "Booking_cancel d ident (u_id u) = (None, d)"
    by (rule Booking_cancel_miss)
  then show "cancelBooking u ident d = (Inl NotFoundOrNotCancellable, d)"
    by (simp add: cancelBooking_def)
qed

theorem cancelBooking_once_witness:
  "cancelBooking alice 100 (club\<lparr>bookings_tbl := [studio_9_10 100 10 20001 Confirmed]\<rparr>)
     = (Inr (studio_9_10 100 10 20001 Cancelled),
        club\<lparr>bookings_tbl := [studio_9_10 100 10 20001 Cancelled]\<rparr>)
   \<and> cancelBooking alice 100 (club\<lparr>bookings_tbl := [studio_9_10 100 10 20001 Cancelled]\<rparr>)
     = (Inl NotFoundOrNotCancellable, club\<lparr>bookings_tbl := [studio_9_10 100 10 20001 Cancelled]\<rparr>)
   \<and> cancelBooking bob 100 (club\<lparr>bookings_tbl := [studio_9_10 100 10 20001 Confirmed]\<rparr>)
     = (Inl NotFoundOrNotCancellable, club\<lparr>bookings_tbl := [studio_9_10 100 10 20001 Confirmed]\<rparr>)
   \<and> cancelBooking alice 999 (club\<lparr>bookings_tbl := [studio_9_10 100 10 20001 Confirmed]\<rparr>)
     = (Inl NotFoundOrNotCancellable, club\<lparr>bookings_tbl := [studio_9_10 100 10 20001 Confirmed]\<rparr>)"
proof -
  let ?d = "club\<lparr>bookings_tbl := [studio_9_10 100 10 20001 Confirmed]\<rparr>"
  let ?c = "club\<lparr>bookings_tbl := [studio_9_10 100 10 20001 Cancelled]\<rparr>"
  have own: "\<exists>b \<in> set (bookings_tbl ?d).
      b_id b = 100 \<and> b_user_id b = u_id alice \<and> b_status b \<in> {Confirmed, Pending}"
    by (simp add: sample_defs)
  have other: "\<not> (\<exists>b \<in> set (bookings_tbl ?d).
      b_id b = 100 \<and> b_user_id b = u_id bob \<and> b_status b \<in> {Confirmed, Pending})"
    by (simp add: sample_defs)
  have absent: "\<not> (\<exists>b \<in> set (bookings_tbl ?d).
      b_id b = 999 \<and> b_user_id b = u_id alice \<and> b_status b \<in> {Confirmed, Pending})"
    by (simp add: sample_defs)
  have spent: "\<not> (\<exists>b \<in> set (bookings_tbl ?c).
      b_id b = 100 \<and> b_user_id b = u_id alice \<and> b_status b \<in> {Confirmed, Pending})"
    by (simp add: sample_defs)
  from own cancelBooking_once [of ?d 100 alice]
  have "\<exists>b d'. cancelBooking alice 100 ?d = (Inr b, d') \<and> b_status b = Cancelled"
    by blast
  have first: "cancelBooking alice 100 ?d = (Inr (studio_9_10 100 10 20001 Cancelled), ?c)"
    by (simp add: cancel_defs sample_defs)
  from spent cancelBooking_once [of ?c 100 alice]
  have second: "cancelBooking alice 100 ?c = (Inl NotFoundOrNotCancellable, ?c)"
    by blast
  from other cancelBooking_once [of ?d 100 bob]
  have third: "cancelBooking bob 100 ?d = (Inl NotFoundOrNotCancellable, ?d)"
    by blast
  from absent cancelBooking_once [of ?d 999 alice]
  have fourth: "cancelBooking alice 999 ?d = (Inl NotFoundOrNotCancellable, ?d)"
    by blast
  from first second third fourth show ?thesis by simp
qed


subsection \<open>The slots of a day without bookings\<close>

lemma format_in_day:
  assumes "0 \<le> k" and "k < 86400" and "x + tz = (L * 86400 + k) * 1000"
  shows "format_HHmmss tz x =
           pad2 (nat k div 3600) @ '':'' @ pad2 ((nat k div 60) mod 60) @ '':'' @ pad2 (nat k mod 60)"
proof -
  have "(x + tz) div 1000 = L * 86400 + k"
    unfolding assms(3) by simp
  then have "((x + tz) div 1000) mod 86400 = k"
    using assms(1,2) by simp
  then show ?thesis
    by (simp add: format_HHmmss_def Let_def)
qed

lemma setHours_8: "format_HHmmss tz (setHours tz t 8 0) = ''08:00:00''"
proof -
  have "setHours tz t 8 0 + tz = (local_day tz t * 86400 + 28800) * 1000"
    by (simp add: setHours_def)
  then have "format_HHmmss tz (setHours tz t 8 0) =
      pad2 (nat 28800 div 3600) @ '':'' @ pad2 ((nat 28800 div 60) mod 60) @ '':'' @ pad2 (nat 28800 mod 60)"
    by (intro format_in_day) simp_all
  then show ?thesis
    by (simp add: pad2_def digit_char_def)
qed

lemma setHours_9: "format_HHmmss tz (setHours tz t 8 0 + 3600000) = ''09:00:00''"
proof -
  have "setHours tz t 8 0 + 3600000 + tz = (local_day tz t * 86400 + 32400) * 1000"
    by (simp add: setHours_def)
  then have "format_HHmmss tz (setHours tz t 8 0 + 3600000) =
      pad2 (nat 32400 div 3600) @ '':'' @ pad2 ((nat 32400 div 60) mod 60) @ '':'' @ pad2 (nat 32400 mod 60)"
    by (intro format_in_day) simp_all
  then show ?thesis
    by (simp add: pad2_def digit_char_def)
qed

lemma setHours_10: "format_HHmmss tz (setHours tz t 8 0 + 7200000) = ''10:00:00''"
proof -
  have "setHours tz t 8 0 + 7200000 + tz = (local_day tz t * 86400 + 36000) * 1000"
    by (simp add: setHours_def)
  then have "format_HHmmss tz (setHours tz t 8 0 + 7200000) =
      pad2 (nat 36000 div 3600) @ '':'' @ pad2 ((nat 36000 div 60) mod 60) @ '':'' @ pad2 (nat 36000 mod 60)"
    by (intro format_in_day) simp_all
  then show ?thesis
    by (simp add: pad2_def digit_char_def)
qed

lemma parse_8: "parse_hours ''08:00:00'' = Some (8, 0)"
  by (simp add: parse_hours_def js_Number_def digit_val_def)

lemma parse_10: "parse_hours ''10:00:00'' = Some (10, 0)"
  by (simp add: parse_hours_def js_Number_def digit_val_def)

lemma slotsQuery_no_booking:
  assumes "filter (\<lambda>f. f_id f = ident) (facilities_tbl d) = [f]"
    and "\<forall>b \<in> set (bookings_tbl d). b_facility_id b = ident \<longrightarrow> local_day tz (b_start_time b) \<noteq> date"
  shows "slotsQuery tz d ident date = [\<lparr>r_facility = f, r_start_time = None, r_end_time = None\<rparr>]"
proof -
  have "f \<in> set (filter (\<lambda>f. f_id f = ident) (facilities_tbl d))"
    using assms(1) by simp
  then have "f_id f = ident" by simp
  have "\<not> (f_id f = b_facility_id b \<and> local_day tz (b_start_time b) = date
                      \<and> b_status b \<in> {Confirmed, Pending})" if "b \<in> set (bookings_tbl d)" for b
  proof
    assume c: "f_id f = b_facility_id b \<and> local_day tz (b_start_time b) = date
                      \<and> b_status b \<in> {Confirmed, Pending}"
    with \<open>f_id f = ident\<close> have "b_facility_id b = ident" by simp
    with assms(2) that have "local_day tz (b_start_time b) \<noteq> date" by blast
    with c show False by blast
  qed
  then have "filter (\<lambda>b. f_id f = b_facility_id b \<and> local_day tz (b_start_time b) = date
                      \<and> b_status b \<in> {Confirmed, Pending}) (bookings_tbl d) = []"
    unfolding filter_empty_conv by blast
  then show ?thesis
    by (simp add: slotsQuery_def assms(1))
qed

lemma two_slots_loop:
  "slot_loop [] 60 0 (setHours tz t 10 0) [] (setHours tz t 8 0) =
     Some [\<lparr>slot_startTime = setHours tz t 8 0, slot_endTime = setHours tz t 8 0 + 3600000, available = True\<rparr>,
           \<lparr>slot_startTime = setHours tz t 8 0 + 3600000, slot_endTime = setHours tz t 8 0 + 7200000, available = True\<rparr>]"
  by (simp add: slot_loop.simps isConflicting_def setHours_def)

text \<open>
  Claim C7. For a facility open from 08:00 to 10:00 with slots of 60 minutes and no
  buffer, on a date on which none of its bookings starts, the slot list has exactly two
  slots in ascending order, both available: the first starts at the instant
  \<^verbatim>\<open>setHours(8, 0)\<close> gives, whose local time of day is 08:00, and ends an hour later
  at 09:00; the second runs from 09:00 to 10:00, the end of the operating hours.
\<close>

theorem empty_day_two_slots:
  assumes "filter (\<lambda>f. f_id f = ident) (facilities_tbl d) = [f]"
    and "f_operating_hours_start f = ''08:00:00''"
    and "f_operating_hours_end f = ''10:00:00''"
    and "f_booking_duration_minutes f = 60"
    and "f_booking_buffer_minutes f = 0"
    and "\<forall>b \<in> set (bookings_tbl d). b_facility_id b = ident \<longrightarrow> local_day tz (b_start_time b) \<noteq> date"
  shows "getAvailableSlots tz d ident (Some date) =
           Some (Inr \<lparr>facility = \<lparr>bookingDurationMinutes = 60, operatingHoursStart = ''08:00:00'',
                                   operatingHoursEnd = ''10:00:00''\<rparr>,
                      availableSlots =
                        [\<lparr>slot_startTime = setHours tz (new_Date date) 8 0,
                          slot_endTime = setHours tz (new_Date date) 8 0 + 3600000,
                          available = True\<rparr>,
                         \<lparr>slot_startTime = setHours tz (new_Date date) 8 0 + 3600000,
                          slot_endTime = setHours tz (new_Date date) 8 0 + 7200000,
                          available = True\<rparr>]\<rparr>)
       \<and> format_HHmmss tz (setHours tz (new_Date date) 8 0) = ''08:00:00''
       \<and> format_HHmmss tz (setHours tz (new_Date date) 8 0 + 3600000) = ''09:00:00''
       \<and> format_HHmmss tz (setHours tz (new_Date date) 8 0 + 7200000) = ''10:00:00''"
proof -
  have rows: "slotsQuery tz d ident date = [\<lparr>r_facility = f, r_start_time = None, r_end_time = None\<rparr>]"
    using assms(1,6) by (rule slotsQuery_no_booking)
  have "Facility_getAvailableSlots tz d ident date =
          Some (Some \<lparr>facility = \<lparr>bookingDurationMinutes = 60, operatingHoursStart = ''08:00:00'',
                                   operatingHoursEnd = ''10:00:00''\<rparr>,
                      availableSlots =
                        [\<lparr>slot_startTime = setHours tz (new_Date date) 8 0,
                          slot_endTime = setHours tz (new_Date date) 8 0 + 3600000,
                          available = True\<rparr>,
                         \<lparr>slot_startTime = setHours tz (new_Date date) 8 0 + 3600000,
                          slot_endTime = setHours tz (new_Date date) 8 0 + 7200000,
                          available = True\<rparr>]\<rparr>)"
    unfolding Facility_getAvailableSlots_def rows
    by (simp add: assms(2-5) parse_8 parse_10 two_slots_loop)
  then show ?thesis
    by (simp add: getAvailableSlots_def setHours_8 setHours_9 setHours_10)
qed

theorem empty_day_two_slots_witness:
  "getAvailableSlots 0 club 2 (Some 20001) =
           Some (Inr \<lparr>facility = \<lparr>bookingDurationMinutes = 60, operatingHoursStart = ''08:00:00'',
                                   operatingHoursEnd = ''10:00:00''\<rparr>,
                      availableSlots =
                        [\<lparr>slot_startTime = at_time 20001 8 0, slot_endTime = at_time 20001 9 0,
                          available = True\<rparr>,
                         \<lparr>slot_startTime = at_time 20001 9 0, slot_endTime = at_time 20001 10 0,
                          available = True\<rparr>]\<rparr>)"
proof -
  have a: "filter (\<lambda>f. f_id f = 2) (facilities_tbl club) = [studio]"
    by (simp add: sample_defs)
  have b: "\<forall>b \<in> set (bookings_tbl club). b_facility_id b = 2 \<longrightarrow> local_day 0 (b_start_time b) \<noteq> 20001"
    by (simp add: club_def)
  show ?thesis
    using empty_day_two_slots [OF a _ _ _ _ b]
    by (simp add: studio_def setHours_def new_Date_def local_day_def at_time_def)
qed

subsection \<open>Termination of the slot loop\<close>

lemma slot_loop_terminates:
  assumes "0 < slotDuration + bufferTime"
  shows "\<exists>r. slot_loop bs slotDuration bufferTime dayEnd acc cur = Some r"
proof (induction "nat (dayEnd - (cur + slotDuration * 60 * 1000) + 1)" arbitrary: acc cur rule: less_induct)
  case less
  show ?case
  proof (cases "cur + slotDuration * 60 * 1000 \<le> dayEnd")
    case False
    then show ?thesis
      by (subst slot_loop.simps) simp
  next
    case True
    let ?next = "cur + slotDuration * 60 * 1000 + bufferTime * 60 * 1000"
    have "cur < ?next" using assms by simp
    with True have "nat (dayEnd - (?next + slotDuration * 60 * 1000) + 1)
        < nat (dayEnd - (cur + slotDuration * 60 * 1000) + 1)"
      by simp
    from less [OF this] have "\<exists>r. slot_loop bs slotDuration bufferTime dayEnd acc' ?next = Some r" for acc'
      by blast
    with True show ?thesis
      by (subst slot_loop.simps) simp
  qed
qed

lemma slot_loop_stuck:
  assumes "slot_loop bs slotDuration bufferTime dayEnd acc cur = Some r"
  shows "\<not> (slotDuration = 0 \<and> bufferTime = 0 \<and> cur \<le> dayEnd)"
  using assms
proof (induction rule: slot_loop.raw_induct [rotated, consumes 1])
  case (1 loop bs slotDuration bufferTime dayEnd acc cur r)
  show ?case
  proof
    assume z: "slotDuration = 0 \<and> bufferTime = 0 \<and> cur \<le> dayEnd"
    with 1(2) obtain acc' where "loop bs 0 0 dayEnd acc' cur = Some r"
      by (simp split: if_splits)
    from 1(1) [OF this] z show False by simp
  qed
qed

lemma slot_loop_never_ends:
  assumes "cur \<le> dayEnd"
  shows "slot_loop bs 0 0 dayEnd acc cur = None"
proof (cases "slot_loop bs 0 0 dayEnd acc cur")
  case None
  then show ?thesis .
next
  case (Some r)
  from slot_loop_stuck [OF this] assms show ?thesis by simp
qed

lemma slotsQuery_row:
  assumes "row \<in> set (slotsQuery tz d ident date)"
  shows "r_facility row \<in> set (facilities_tbl d) \<and> f_id (r_facility row) = ident"
proof -
  from assms obtain f where f: "f \<in> set (facilities_tbl d)" "f_id f = ident"
    and row: "row \<in> set (case filter (\<lambda>b. f_id f = b_facility_id b
                           \<and> local_day tz (b_start_time b) = date
                           \<and> b_status b \<in> {Confirmed, Pending}) (bookings_tbl d) of
            [] \<Rightarrow> [\<lparr>r_facility = f, r_start_time = None, r_end_time = None\<rparr>]
          | bs \<Rightarrow> map (\<lambda>b. \<lparr>r_facility = f, r_start_time = Some (b_start_time b),
                             r_end_time = Some (b_end_time b)\<rparr>) bs)"
    unfolding slotsQuery_def by auto
  from row have "r_facility row = f"
    by (auto split: list.splits)
  with f show ?thesis by simp
qed



lemma Facility_getAvailableSlots_returns:
  assumes "\<forall>f \<in> set (facilities_tbl d). f_id f = ident \<longrightarrow>
             0 < f_booking_duration_minutes f + f_booking_buffer_minutes f"
  shows "\<exists>r. Facility_getAvailableSlots tz d ident date = Some r"
proof (cases "slotsQuery tz d ident date")
  case Nil
  then show ?thesis by (simp add: Facility_getAvailableSlots_def)
next
  case (Cons row rows)
  then have "row \<in> set (slotsQuery tz d ident date)" by simp
  then have "r_facility row \<in> set (facilities_tbl d) \<and> f_id (r_facility row) = ident"
    by (rule slotsQuery_row)
  with assms have pos: "0 < f_booking_duration_minutes (r_facility row)
                          + f_booking_buffer_minutes (r_facility row)"
    by blast
  have "\<exists>r. slot_loop bs (f_booking_duration_minutes (r_facility row))
               (f_booking_buffer_minutes (r_facility row)) dayEnd [] cur = Some r" for bs dayEnd cur
    using pos by (rule slot_loop_terminates)
  then show ?thesis
    unfolding Facility_getAvailableSlots_def Cons
    by (auto simp add: Let_def split: option.splits prod.splits)
qed

text \<open>
  Claim C6 as stated fails: the annex has a booking duration of 0 and a buffer of 0, and
  the request for its slots neither returns a list nor an error: the cursor of the loop
  never moves.
\<close>

theorem annex_slots_never_return:
  "getAvailableSlots 0 club 3 (Some 20001) = None"
proof -
  have "slot_loop [] 0 0 (at_time 20001 10 0) [] (at_time 20001 8 0) = None"
    by (rule slot_loop_never_ends) (simp add: at_time_def)
  then show ?thesis
    by (simp add: getAvailableSlots_def Facility_getAvailableSlots_def slotsQuery_def local_day_def
          parse_hours_def js_Number_def digit_val_def setHours_def new_Date_def Let_def sample_defs)
qed

text \<open>
  Claim C6, amended. When every facility row with the id has a positive sum of booking
  duration and buffer, the request for its slots returns a response.
\<close>

theorem getAvailableSlots_terminates:
  assumes "\<forall>f \<in> set (facilities_tbl d). f_id f = ident \<longrightarrow>
             0 < f_booking_duration_minutes f + f_booking_buffer_minutes f"
  shows "\<exists>r. getAvailableSlots tz d ident date = Some r"
proof (cases date)
  case None
  then show ?thesis by (simp add: getAvailableSlots_def)
next
  case (Some dt)
  from assms obtain r where "Facility_getAvailableSlots tz d ident dt = Some r"
    using Facility_getAvailableSlots_returns [of d ident tz dt] by blast
  with Some show ?thesis
    by (cases r) (simp_all add: getAvailableSlots_def)
qed

theorem getAvailableSlots_terminates_witness:
  "getAvailableSlots 0 club 5 (Some 20001) =
     Some (Inr \<lparr>facility = \<lparr>bookingDurationMinutes = 0, operatingHoursStart = ''08:00:00'',
                             operatingHoursEnd = ''10:00:00''\<rparr>,
                availableSlots =
                  [\<lparr>slot_startTime = at_time 20001 8 0, slot_endTime = at_time 20001 8 0, available = True\<rparr>,
                   \<lparr>slot_startTime = at_time 20001 9 0, slot_endTime = at_time 20001 9 0, available = True\<rparr>,
                   \<lparr>slot_startTime = at_time 20001 10 0, slot_endTime = at_time 20001 10 0, available = True\<rparr>]\<rparr>)"
proof -
  have h: "\<forall>f \<in> set (facilities_tbl club). f_id f = 5 \<longrightarrow>
             0 < f_booking_duration_minutes f + f_booking_buffer_minutes f"
    by (simp add: sample_defs)
  from getAvailableSlots_terminates [OF h, of 0 "Some 20001"]
  obtain r where "getAvailableSlots 0 club 5 (Some 20001) = Some r"
    by blast
  then show ?thesis
    by (simp add: slots_defs sample_defs)
qed

subsection \<open>The slot list and the status of the facility\<close>






subsection \<open>Overlapping bookings of a facility\<close>














end
